theory Spec2Isabelle
  imports Complex_Main
begin

section \<open>Values of the source language\<close>

text \<open>
  The program is a Python script (\<^verbatim>\<open>app.py\<close>) that chains ten calls to a hosted
  text-completion service. Python strings are modelled as \<^typ>\<open>string\<close>: a
  \<^typ>\<open>char\<close> is a code point below 256, so the model covers the strings of ASCII and
  Latin-1 characters.

  A Python \<^verbatim>\<open>dict\<close> keeps its entries in insertion order, so it is an association
  list whose keys are pairwise distinct. \<^verbatim>\<open>d[k] = v\<close> overwrites the value of a key
  that is present, leaving its position, and appends a new entry otherwise.
\<close>

type_synonym ('k, 'v) dict = "('k \<times> 'v) list"

fun dict_set :: "('k, 'v) dict \<Rightarrow> 'k \<Rightarrow> 'v \<Rightarrow> ('k, 'v) dict" where
  "dict_set [] k v = [(k, v)]"
| "dict_set ((k', v') # d) k v =
     (if k' = k then (k', v) # d else (k', v') # dict_set d k v)"

text \<open>\<^verbatim>\<open>sep.join(xs)\<close>\<close>

fun join :: "string \<Rightarrow> string list \<Rightarrow> string" where
  "join sep [] = []"
| "join sep [x] = x"
| "join sep (x # y # ys) = x @ sep @ join sep (y # ys)"

text \<open>
  \<^verbatim>\<open>str.isprintable\<close> on one character. Below 256 the characters that are not
  printable are the controls \<^verbatim>\<open>0x00\<close> to \<^verbatim>\<open>0x1f\<close> and \<^verbatim>\<open>0x7f\<close> to \<^verbatim>\<open>0x9f\<close>, the
  no-break space \<^verbatim>\<open>0xa0\<close> and the soft hyphen \<^verbatim>\<open>0xad\<close>.
\<close>

definition isprintable :: "char \<Rightarrow> bool" where
  "isprintable ch =
     (let n = (of_char ch :: nat) in (32 \<le> n \<and> n < 127) \<or> (160 < n \<and> n \<noteq> 173))"

text \<open>
  \<^verbatim>\<open>repr\<close> of a string, as CPython computes it: the string is quoted with \<^verbatim>\<open>'\<close>, or
  with \<^verbatim>\<open>"\<close> when it holds a \<^verbatim>\<open>'\<close> and no \<^verbatim>\<open>"\<close>; the quote in use and the backslash
  are escaped with a backslash; tab, newline and carriage return become \<^verbatim>\<open>\t\<close>,
  \<^verbatim>\<open>\n\<close>, \<^verbatim>\<open>\r\<close>; the other characters below the space and \<^verbatim>\<open>0x7f\<close> become
  \<^verbatim>\<open>\xhh\<close> with lower-case digits; the other ASCII characters are copied; a
  character from \<^verbatim>\<open>0x80\<close> on becomes \<^verbatim>\<open>\xhh\<close> when it is not printable and is copied
  when it is.
\<close>

definition squote :: char where
  "squote = CHR 0x27"

definition dquote :: char where
  "dquote = CHR 0x22"

definition backslash :: char where
  "backslash = CHR 0x5C"

definition newline :: char where
  "newline = CHR 0x0A"

definition hexdigit :: "nat \<Rightarrow> char" where
  "hexdigit n = ''0123456789abcdef'' ! (n mod 16)"

definition repr_char :: "char \<Rightarrow> char \<Rightarrow> string" where
  "repr_char quote ch =
     (if ch = quote \<or> ch = backslash then [backslash, ch]
      else if ch = CHR 0x09 then [backslash, CHR ''t'']
      else if ch = newline then [backslash, CHR ''n'']
      else if ch = CHR 0x0D then [backslash, CHR ''r'']
      else if (of_char ch :: nat) < 32 \<or> ch = CHR 0x7F
        then [backslash, CHR ''x'', hexdigit (of_char ch div 16), hexdigit (of_char ch)]
      else if (of_char ch :: nat) < 127 then [ch]
      else if \<not> isprintable ch
        then [backslash, CHR ''x'', hexdigit (of_char ch div 16), hexdigit (of_char ch)]
      else [ch])"

definition py_repr :: "string \<Rightarrow> string" where
  "py_repr s =
     (let quote = (if squote \<in> set s \<and> dquote \<notin> set s then dquote else squote)
      in quote # concat (map (repr_char quote) s) @ [quote])"

text \<open>\<^verbatim>\<open>str(d)\<close> of a dict of strings, which is what an f-string interpolates.\<close>

definition dict_str :: "(string, string) dict \<Rightarrow> string" where
  "dict_str d =
     ''{'' @ join '', '' (map (\<lambda>(k, v). py_repr k @ '': '' @ py_repr v) d) @ ''}''"

section \<open>The remote completion service\<close>

record chat_message =
  role :: string
  content :: string

record choice =
  message :: chat_message

record completion =
  choices :: "choice list"

record request =
  model :: string
  messages :: "chat_message list"
  temperature :: rat
  top_p :: int
  max_tokens :: int
  stream :: bool

text \<open>
  The exceptions the handlers of the script catch (\<^verbatim>\<open>except Exception\<close>): whatever
  the client library raises, with the text \<^verbatim>\<open>str(e)\<close> that the handler prints, and
  the \<^verbatim>\<open>IndexError\<close> of \<^verbatim>\<open>choices[0]\<close> on a completion without choices.
\<close>

datatype exn = RemoteError string | IndexError

fun exn_str :: "exn \<Rightarrow> string" where
  "exn_str (RemoteError msg) = msg"
| "exn_str IndexError = ''list index out of range''"

text \<open>
  The service is outside the program. A client is any function that, given the
  requests issued so far and the current request, raises or returns a completion:
  every sequence of outcomes of successive calls is the behaviour of some client.
\<close>

type_synonym client = "request list \<Rightarrow> request \<Rightarrow> exn + completion"

section \<open>Program state\<close>

text \<open>
  The caller's \<^verbatim>\<open>question_data\<close> is a mutable object passed by reference, so it
  lives in a store; the functions receive its address. The state also records the
  requests issued to the service, in order, and the lines printed.
\<close>

record question_input =
  question :: string
  options :: "(string, string) dict"

type_synonym ref = nat

record world =
  heap :: "ref \<Rightarrow> question_input"
  calls :: "request list"
  stdout :: "string list"

record pipeline_output =
  Question :: string
  Initial_Response :: string
  Probing_Questions_and_Answers :: "(string, string) dict"
  Final_Assessment :: string

definition print :: "string \<Rightarrow> world \<Rightarrow> world" where
  "print line w = w\<lparr>stdout := stdout w @ [line]\<rparr>"

text \<open>\<^verbatim>\<open>client.chat.completions.create(model=..., messages=[...], ...)\<close>\<close>

definition chat_completions_create ::
  "client \<Rightarrow> request \<Rightarrow> world \<Rightarrow> (exn + completion) \<times> world" where
  "chat_completions_create cl rq w = (cl (calls w) rq, w\<lparr>calls := calls w @ [rq]\<rparr>)"

text \<open>
  The three call sites pass the same model, sampling parameters and a single
  user message; they differ in the prompt and in \<^verbatim>\<open>max_tokens\<close>.
\<close>

definition completion_request :: "string \<Rightarrow> int \<Rightarrow> request" where
  "completion_request prompt n =
     \<lparr>model = ''nvidia/llama-3.1-nemotron-70b-instruct'',
      messages = [\<lparr>role = ''user'', content = prompt\<rparr>],
      temperature = 1 / 2,
      top_p = 1,
      max_tokens = n,
      stream = False\<rparr>"

text \<open>
  The value of a \<^verbatim>\<open>try\<close> body \<^verbatim>\<open>create(...).choices[0].message.content\<close>: the
  exception of the call, the \<^verbatim>\<open>IndexError\<close> of an empty \<^verbatim>\<open>choices\<close>, or the text.
\<close>

definition first_choice_content :: "completion \<Rightarrow> exn + string" where
  "first_choice_content c =
     (case choices c of [] \<Rightarrow> Inl IndexError | ch # _ \<Rightarrow> Inr (content (message ch)))"

definition try_content :: "exn + completion \<Rightarrow> exn + string" where
  "try_content r = (case r of Inl e \<Rightarrow> Inl e | Inr c \<Rightarrow> first_choice_content c)"

definition sentinel :: string where
  "sentinel = ''No valid response generated.''"

section \<open>GeneratorAgent\<close>

definition extract_options :: "(string, string) dict \<Rightarrow> string" where
  "extract_options opts = join ''\<newline>'' (map (\<lambda>(key, val). key @ '': '' @ val) opts)"

definition generate_instructions :: string where
  "generate_instructions =
     ''You are a medical expert with wide range of knowledge, your each and every decision and answer is crucial and must be accurate and onpoint , refer internet and all the available knowledge resources and analyze each option carefully and select only one best option (A, B, C, D, or E) which you think its right according to the question. Explain your reasoning in very short and crisp points.''"

definition generate_prompt :: "string \<Rightarrow> string \<Rightarrow> string" where
  "generate_prompt q opts =
     ''Question:\<newline>'' @ q @ ''\<newline>\<newline>Options:\<newline>'' @ opts @ ''\<newline>\<newline>'' @
     generate_instructions"

definition generate_request :: "question_input \<Rightarrow> request" where
  "generate_request qd =
     (let q = question qd;
          opts = extract_options (options qd);
          prompt = generate_prompt q opts
      in completion_request prompt 500)"

definition generate_initial_response :: "client \<Rightarrow> ref \<Rightarrow> world \<Rightarrow> string \<times> world" where
  "generate_initial_response cl question_data w =
     (let (response, w1) =
            chat_completions_create cl (generate_request (heap w question_data)) w
      in case try_content response of
           Inr text \<Rightarrow> (text, w1)
         | Inl e \<Rightarrow> (sentinel, print (''Error generating content: '' @ exn_str e) w1))"

section \<open>VerifierAgent\<close>

definition probing_questions :: "string list" where
  "probing_questions =
     [''What are the key factors that led you to this conclusion by ruling out the other options?'',
      ''Can you identify any potential weaknesses in your reasoning?'',
      ''What alternative explanations might exist for this scenario?'',
      ''How might your answer change if [insert relevant detail] was different?'',
      ''On a scale of 1-10, how certain are you of this answer, and why?'',
      ''What additional information would help you be more confident in your answer?'',
      ''What are the potential consequences if this answer is incorrect?'',
      ''How does your answer align with standard medical practices or guidelines?'']"

definition probing_prompt :: "string \<Rightarrow> string \<Rightarrow> string \<Rightarrow> string" where
  "probing_prompt q initial_response probe =
     q @ ''\<newline>\<newline>Initial response: '' @ initial_response @ ''\<newline>\<newline>'' @ probe @
     ''\<newline>\<newline>Just answer the probing questions in short and crisp points. No need for further explanation.''"

definition probe_request :: "string \<Rightarrow> string \<Rightarrow> string \<Rightarrow> request" where
  "probe_request q initial_response probe =
     completion_request (probing_prompt q initial_response probe) 300"

text \<open>The \<^verbatim>\<open>for probe in self.probing_questions\<close> loop, over the probes still to run.\<close>

fun probe_loop ::
  "client \<Rightarrow> string \<Rightarrow> string \<Rightarrow> string list \<Rightarrow> (string, string) dict \<Rightarrow> world
     \<Rightarrow> (string, string) dict \<times> world" where
  "probe_loop cl q initial_response [] probing_results w = (probing_results, w)"
| "probe_loop cl q initial_response (probe # rest) probing_results w =
     (let (response, w1) =
            chat_completions_create cl (probe_request q initial_response probe) w
      in case try_content response of
           Inr text \<Rightarrow>
             probe_loop cl q initial_response rest (dict_set probing_results probe text) w1
         | Inl e \<Rightarrow>
             probe_loop cl q initial_response rest (dict_set probing_results probe sentinel)
               (print (''Error generating probing content: '' @ exn_str e) w1))"

definition probe_response ::
  "client \<Rightarrow> string \<Rightarrow> string \<Rightarrow> world \<Rightarrow> (string, string) dict \<times> world" where
  "probe_response cl q initial_response w =
     probe_loop cl q initial_response probing_questions [] w"

section \<open>ReasonerAgent\<close>

text \<open>The \<^verbatim>\<open>for question, response in probing_results.items()\<close> loop.\<close>

fun analyze_loop ::
  "(string, string) dict \<Rightarrow> (string, string) dict \<Rightarrow> (string, string) dict" where
  "analyze_loop [] analysis = analysis"
| "analyze_loop ((q, response) # rest) analysis =
     analyze_loop rest (dict_set analysis q (''Analysis of: '' @ response))"

definition analyze_probing_results :: "(string, string) dict \<Rightarrow> (string, string) dict" where
  "analyze_probing_results probing_results = analyze_loop probing_results []"

definition assessment_prompt :: "string \<Rightarrow> string \<Rightarrow> (string, string) dict \<Rightarrow> string" where
  "assessment_prompt q initial_response analysis =
     ''Question: '' @ q @ ''\<newline>\<newline>Initial response: '' @ initial_response @
     ''\<newline>\<newline>Based on the following analysis, provide a final assessment and select only one best and the correct option (A, B, C, D, or E):\<newline>'' @
     dict_str analysis"

definition assessment_request :: "string \<Rightarrow> string \<Rightarrow> (string, string) dict \<Rightarrow> request" where
  "assessment_request q initial_response analysis =
     completion_request (assessment_prompt q initial_response analysis) 500"

definition generate_final_assessment ::
  "client \<Rightarrow> string \<Rightarrow> string \<Rightarrow> (string, string) dict \<Rightarrow> world \<Rightarrow> string \<times> world" where
  "generate_final_assessment cl q initial_response analysis w =
     (let (final_assessment, w1) =
            chat_completions_create cl (assessment_request q initial_response analysis) w
      in case try_content final_assessment of
           Inr text \<Rightarrow> (text, w1)
         | Inl e \<Rightarrow> (sentinel, print (''Error generating final assessment: '' @ exn_str e) w1))"

section \<open>The pipeline\<close>

definition process_question_with_agents ::
  "client \<Rightarrow> ref \<Rightarrow> world \<Rightarrow> pipeline_output \<times> world" where
  "process_question_with_agents cl question_data w =
     (let (initial_response, w1) = generate_initial_response cl question_data w;
          (probing_results, w2) =
             probe_response cl (question (heap w1 question_data)) initial_response w1;
          analysis = analyze_probing_results probing_results;
          (final_assessment, w3) =
             generate_final_assessment cl (question (heap w2 question_data))
               initial_response analysis w2
      in (\<lparr>Question = question (heap w3 question_data),
           Initial_Response = initial_response,
           Probing_Questions_and_Answers = probing_results,
           Final_Assessment = final_assessment\<rparr>, w3))"

section \<open>Specification vocabulary\<close>

text \<open>
  What a handler leaves in the output slot of a call, given the outcome of the
  call: the text of the first choice, or the sentinel when the \<^verbatim>\<open>try\<close> body raised.
\<close>

definition slot_text :: "exn + completion \<Rightarrow> string" where
  "slot_text r = (case try_content r of Inr text \<Rightarrow> text | Inl e \<Rightarrow> sentinel)"

text \<open>
  The entries that probing adds for the probes \<open>ps\<close> when the requests \<open>h\<close> were
  issued before: each probe is paired with the slot text of its own call, and its
  request joins the history seen by the later calls.
\<close>

fun probe_entries ::
  "client \<Rightarrow> string \<Rightarrow> string \<Rightarrow> request list \<Rightarrow> string list \<Rightarrow> (string, string) dict" where
  "probe_entries cl q ir h [] = []"
| "probe_entries cl q ir h (p # ps) =
     (p, slot_text (cl h (probe_request q ir p)))
       # probe_entries cl q ir (h @ [probe_request q ir p]) ps"

section \<open>Example inputs\<close>

definition canned_completion :: "string \<Rightarrow> completion" where
  "canned_completion text =
     \<lparr>choices = [\<lparr>message = \<lparr>role = ''assistant'', content = text\<rparr>\<rparr>]\<rparr>"

definition canned_client :: client where
  "canned_client h rq = Inr (canned_completion ''B'')"

definition failing_client :: client where
  "failing_client h rq = Inl (RemoteError ''Connection error.'')"

text \<open>A service that times out on the third call it receives and answers the others.\<close>

definition flaky_client :: client where
  "flaky_client h rq =
     (if length h = 2 then Inl (RemoteError ''Request timed out.'')
      else Inr (canned_completion ''ok''))"

text \<open>
  A service that plays a script: the call that finds \<open>n\<close> requests in the log gets
  outcome \<open>n\<close> of the list. Any sequence of ten outcomes, each a text or a failure,
  is a client.
\<close>

definition scripted_client :: "(exn + completion) list \<Rightarrow> client" where
  "scripted_client outcomes h rq =
     (if length h < length outcomes then outcomes ! length h
      else Inl (RemoteError ''script exhausted''))"

definition fever_rash :: question_input where
  "fever_rash =
     \<lparr>question = ''Patient presents with fever and rash'',
      options = [(''A'', ''Measles''), (''B'', ''Scarlet fever''), (''C'', ''Rubella''),
                 (''D'', ''Varicella''), (''E'', ''Roseola'')]\<rparr>"

definition no_options :: question_input where
  "no_options = \<lparr>question = ''Patient presents with fever and rash'', options = []\<rparr>"

definition world0 :: "question_input \<Rightarrow> world" where
  "world0 qd = \<lparr>heap = (\<lambda>_. qd), calls = [], stdout = []\<rparr>"

section \<open>Dictionaries and the analysis step\<close>

lemma dict_set_fresh: "k \<notin> fst ` set d \<Longrightarrow> dict_set d k v = d @ [(k, v)]"
  by (induction d) auto

lemma analyze_loop_append:
  "distinct (map fst r) \<Longrightarrow> fst ` set r \<inter> fst ` set acc = {} \<Longrightarrow>
   analyze_loop r acc = acc @ map (\<lambda>(k, v). (k, ''Analysis of: '' @ v)) r"
proof (induction r arbitrary: acc)
  case Nil
  then show ?case by simp
next
  case (Cons kv r)
  obtain k v where kv: "kv = (k, v)" by (cases kv)
  from Cons.prems kv have fresh: "k \<notin> fst ` set acc" by auto
  from Cons.prems kv have d: "distinct (map fst r)" and nk: "k \<notin> fst ` set r" by auto
  from Cons.prems kv nk have disj: "fst ` set r \<inter> fst ` set (acc @ [(k, v')]) = {}" for v'
    by auto
  show ?case
    using Cons.IH [OF d disj] by (simp add: kv dict_set_fresh [OF fresh])
qed

lemma analyze_closed_form:
  "distinct (map fst r) \<Longrightarrow>
   analyze_probing_results r = map (\<lambda>(k, v). (k, ''Analysis of: '' @ v)) r"
  by (simp add: analyze_probing_results_def analyze_loop_append)

lemma map_of_wrapped:
  "distinct (map fst r) \<Longrightarrow> (k, v) \<in> set r \<Longrightarrow>
   map_of (map (\<lambda>(k, v). (k, f v)) r) k = Some (f v)"
  by (induction r) (auto simp: rev_image_eqI)

text \<open>
  C3. \<^verbatim>\<open>analyze_probing_results\<close> takes no state and returns none. On every dict \<open>r\<close>
  (an association list with distinct keys) its result has the entries of \<open>r\<close> in the
  same order, each value prefixed with \<^verbatim>\<open>Analysis of: \<close>; so the keys are those of
  \<open>r\<close> in order, looking up a key \<open>k\<close> with \<open>r[k] = v\<close> gives
  \<^verbatim>\<open>"Analysis of: " + v\<close>, and the empty dict gives the empty dict.
\<close>

theorem analyze_probing_results_wraps:
  assumes "distinct (map fst r)"
  shows "analyze_probing_results r = map (\<lambda>(k, v). (k, ''Analysis of: '' @ v)) r
       \<and> map fst (analyze_probing_results r) = map fst r
       \<and> (\<forall>k v. (k, v) \<in> set r \<longrightarrow>
            map_of (analyze_probing_results r) k = Some (''Analysis of: '' @ v))
       \<and> analyze_probing_results [] = []"
proof -
  have cf: "analyze_probing_results r = map (\<lambda>(k, v). (k, ''Analysis of: '' @ v)) r"
    using assms by (rule analyze_closed_form)
  have keys: "map fst (map (\<lambda>(k, v). (k, ''Analysis of: '' @ v)) r) = map fst r"
    by (induction r) auto
  have look: "\<forall>k v. (k, v) \<in> set r \<longrightarrow>
      map_of (map (\<lambda>(k, v). (k, ''Analysis of: '' @ v)) r) k = Some (''Analysis of: '' @ v)"
    using map_of_wrapped [OF assms, where f = "\<lambda>v. ''Analysis of: '' @ v"] by blast
  have emp: "analyze_probing_results [] = []"
    by (simp add: analyze_probing_results_def)
  show ?thesis
    unfolding cf using keys look emp by blast
qed

theorem analyze_probing_results_wraps_witness:
  "distinct (map fst [(''p1'', ''yes''), (''p2'', ''no'')])
   \<and> analyze_probing_results [(''p1'', ''yes''), (''p2'', ''no'')] =
       [(''p1'', ''Analysis of: yes''), (''p2'', ''Analysis of: no'')]
   \<and> map_of (analyze_probing_results [(''p1'', ''yes''), (''p2'', ''no'')]) ''p2'' =
       Some (''Analysis of: no'')"
proof -
  have d: "distinct (map fst [(''p1'', ''yes''), (''p2'', ''no'')])" by simp
  note t = analyze_probing_results_wraps [OF d]
  from t have a: "analyze_probing_results [(''p1'', ''yes''), (''p2'', ''no'')] =
       [(''p1'', ''Analysis of: yes''), (''p2'', ''Analysis of: no'')]" by simp
  from t have "(''p2'', ''no'') \<in> set [(''p1'', ''yes''), (''p2'', ''no'')] \<longrightarrow>
     map_of (analyze_probing_results [(''p1'', ''yes''), (''p2'', ''no'')]) ''p2'' =
       Some (''Analysis of: '' @ ''no'')" by blast
  then have b: "map_of (analyze_probing_results [(''p1'', ''yes''), (''p2'', ''no'')]) ''p2'' =
       Some (''Analysis of: no'')" by simp
  from d a b show ?thesis by blast
qed

section \<open>The three stages and the pipeline\<close>

lemma slot_text_Inl: "try_content r = Inl e \<Longrightarrow> slot_text r = sentinel"
  by (simp add: slot_text_def)

lemma slot_text_Inr: "try_content r = Inr t \<Longrightarrow> slot_text r = t"
  by (simp add: slot_text_def)

lemma generate_fst:
  "fst (generate_initial_response cl p w) = slot_text (cl (calls w) (generate_request (heap w p)))"
  by (simp add: generate_initial_response_def chat_completions_create_def slot_text_def
      split: sum.splits)

lemma generate_calls:
  "calls (snd (generate_initial_response cl p w)) = calls w @ [generate_request (heap w p)]"
  by (simp add: generate_initial_response_def chat_completions_create_def print_def
      split: sum.splits)

lemma generate_heap: "heap (snd (generate_initial_response cl p w)) = heap w"
  by (simp add: generate_initial_response_def chat_completions_create_def print_def
      split: sum.splits)

lemma final_fst:
  "fst (generate_final_assessment cl q ir an w) =
     slot_text (cl (calls w) (assessment_request q ir an))"
  by (simp add: generate_final_assessment_def chat_completions_create_def slot_text_def
      split: sum.splits)

lemma final_calls:
  "calls (snd (generate_final_assessment cl q ir an w)) = calls w @ [assessment_request q ir an]"
  by (simp add: generate_final_assessment_def chat_completions_create_def print_def
      split: sum.splits)

lemma final_heap: "heap (snd (generate_final_assessment cl q ir an w)) = heap w"
  by (simp add: generate_final_assessment_def chat_completions_create_def print_def
      split: sum.splits)

lemma probe_loop_calls:
  "calls (snd (probe_loop cl q ir ps res w)) = calls w @ map (probe_request q ir) ps"
  by (induction ps arbitrary: res w)
     (auto simp: chat_completions_create_def print_def split: sum.splits)

lemma probe_loop_heap: "heap (snd (probe_loop cl q ir ps res w)) = heap w"
  by (induction ps arbitrary: res w)
     (auto simp: chat_completions_create_def print_def split: sum.splits)

lemma probe_loop_result:
  "distinct ps \<Longrightarrow> set ps \<inter> fst ` set res = {} \<Longrightarrow>
   fst (probe_loop cl q ir ps res w) = res @ probe_entries cl q ir (calls w) ps"
proof (induction ps arbitrary: res w)
  case Nil
  then show ?case by simp
next
  case (Cons p ps)
  from Cons.prems have fresh: "p \<notin> fst ` set res" by auto
  from Cons.prems have d: "distinct ps" and np: "p \<notin> set ps" by auto
  have disj: "set ps \<inter> fst ` set (res @ [(p, v)]) = {}" for v
    using Cons.prems np by auto
  show ?case
    using Cons.IH [OF d disj]
    by (simp add: slot_text_def dict_set_fresh [OF fresh] chat_completions_create_def
        print_def split: sum.splits)
qed

lemma probe_entries_keys: "map fst (probe_entries cl q ir h ps) = ps"
  by (induction ps arbitrary: h) auto

lemma probe_entries_nth:
  "i < length ps \<Longrightarrow>
   probe_entries cl q ir h ps ! i =
     (ps ! i, slot_text (cl (h @ map (probe_request q ir) (take i ps))
                           (probe_request q ir (ps ! i))))"
proof (induction ps arbitrary: h i)
  case Nil
  then show ?case by simp
next
  case (Cons p ps)
  show ?case
  proof (cases i)
    case 0
    then show ?thesis by simp
  next
    case (Suc j)
    with Cons.prems have "j < length ps" by simp
    from Cons.IH [OF this] Suc show ?thesis by simp
  qed
qed

lemma distinct_probing_questions: "distinct probing_questions"
  by (simp add: probing_questions_def)

lemma length_probing_questions: "length probing_questions = 8"
  by (simp add: probing_questions_def)

lemma probe_response_entries:
  "fst (probe_response cl q ir w) = probe_entries cl q ir (calls w) probing_questions"
  using probe_loop_result [OF distinct_probing_questions, of "[]" cl q ir w]
  by (simp add: probe_response_def)

lemma probe_response_calls:
  "calls (snd (probe_response cl q ir w)) = calls w @ map (probe_request q ir) probing_questions"
  by (simp add: probe_response_def probe_loop_calls)

lemma probe_response_heap: "heap (snd (probe_response cl q ir w)) = heap w"
  by (simp add: probe_response_def probe_loop_heap)

lemma process_unfold:
  "process_question_with_agents cl p w =
     (let g = generate_initial_response cl p w;
          pr = probe_response cl (question (heap w p)) (fst g) (snd g);
          fa = generate_final_assessment cl (question (heap w p)) (fst g)
                 (analyze_probing_results (fst pr)) (snd pr)
      in (\<lparr>Question = question (heap w p),
           Initial_Response = fst g,
           Probing_Questions_and_Answers = fst pr,
           Final_Assessment = fst fa\<rparr>, snd fa))"
  by (simp add: process_question_with_agents_def Let_def case_prod_beta
      generate_heap probe_response_heap final_heap)

lemma process_probing:
  "Probing_Questions_and_Answers (fst (process_question_with_agents cl p w)) =
     fst (probe_response cl (question (heap w p)) (fst (generate_initial_response cl p w))
            (snd (generate_initial_response cl p w)))"
  by (simp add: process_unfold Let_def)

lemma process_heap: "heap (snd (process_question_with_agents cl p w)) = heap w"
  by (simp add: process_unfold Let_def generate_heap probe_response_heap final_heap)

lemma process_calls:
  "calls (snd (process_question_with_agents cl p w)) =
     calls w @ generate_request (heap w p)
       # map (probe_request (question (heap w p)) (fst (generate_initial_response cl p w)))
           probing_questions
       @ [assessment_request (question (heap w p)) (fst (generate_initial_response cl p w))
            (analyze_probing_results
               (fst (probe_response cl (question (heap w p))
                       (fst (generate_initial_response cl p w))
                       (snd (generate_initial_response cl p w)))))]"
  by (simp add: process_unfold Let_def generate_calls probe_response_calls final_calls)

text \<open>
  C1. Whatever the question, the initial response, the earlier calls and the client do,
  the dict returned by \<^verbatim>\<open>probe_response\<close> has the 8 probing questions as its keys, in
  the order of the list, and so 8 entries; a probe whose \<^verbatim>\<open>try\<close> body raised has the
  sentinel as its value at its own position; and the field
  \<^verbatim>\<open>Probing Questions and Answers\<close> of the pipeline's output has the same 8 keys.
\<close>

theorem probe_response_eight_entries:
  "map fst (fst (probe_response cl q ir w)) = probing_questions
   \<and> length (fst (probe_response cl q ir w)) = 8
   \<and> (\<forall>i<8. \<forall>e.
         try_content (cl (calls w @ map (probe_request q ir) (take i probing_questions))
                        (probe_request q ir (probing_questions ! i))) = Inl e \<longrightarrow>
         fst (probe_response cl q ir w) ! i = (probing_questions ! i, sentinel))
   \<and> map fst (Probing_Questions_and_Answers (fst (process_question_with_agents cl p w))) =
       probing_questions
   \<and> length (Probing_Questions_and_Answers (fst (process_question_with_agents cl p w))) = 8"
proof -
  have len: "length (probe_entries cl' q' ir' h ps) = length ps" for cl' q' ir' h ps
    using probe_entries_keys [of cl' q' ir' h ps] by (metis length_map)
  have a: "map fst (fst (probe_response cl q ir w)) = probing_questions"
    by (simp add: probe_response_entries probe_entries_keys)
  have b: "length (fst (probe_response cl q ir w)) = 8"
    by (simp add: probe_response_entries len length_probing_questions)
  have c: "\<forall>i<8. \<forall>e.
         try_content (cl (calls w @ map (probe_request q ir) (take i probing_questions))
                        (probe_request q ir (probing_questions ! i))) = Inl e \<longrightarrow>
         fst (probe_response cl q ir w) ! i = (probing_questions ! i, sentinel)"
    by (simp add: probe_response_entries probe_entries_nth length_probing_questions
        slot_text_Inl)
  have d: "map fst (Probing_Questions_and_Answers (fst (process_question_with_agents cl p w))) =
       probing_questions"
    by (simp add: process_probing probe_response_entries probe_entries_keys)
  have e: "length (Probing_Questions_and_Answers (fst (process_question_with_agents cl p w))) = 8"
    by (simp add: process_probing probe_response_entries len length_probing_questions)
  from a b c d e show ?thesis by blast
qed


theorem probe_response_eight_entries_witness:
  "try_content
     (flaky_client
        (calls (world0 fever_rash) @ map (probe_request ''Q'' ''R'') (take 2 probing_questions))
        (probe_request ''Q'' ''R'' (probing_questions ! 2))) = Inl (RemoteError ''Request timed out.'')
   \<and> fst (probe_response flaky_client ''Q'' ''R'' (world0 fever_rash)) ! 2 =
       (probing_questions ! 2, sentinel)
   \<and> length (fst (probe_response flaky_client ''Q'' ''R'' (world0 fever_rash))) = 8"
proof -
  have h: "try_content
     (flaky_client
        (calls (world0 fever_rash) @ map (probe_request ''Q'' ''R'') (take 2 probing_questions))
        (probe_request ''Q'' ''R'' (probing_questions ! 2))) = Inl (RemoteError ''Request timed out.'')"
    by (simp add: flaky_client_def try_content_def world0_def probing_questions_def)
  note t = probe_response_eight_entries [of flaky_client "''Q''" "''R''" "world0 fever_rash" 0]
  from t have imp: "\<forall>i<8. \<forall>e.
         try_content (flaky_client (calls (world0 fever_rash) @
                        map (probe_request ''Q'' ''R'') (take i probing_questions))
                        (probe_request ''Q'' ''R'' (probing_questions ! i))) = Inl e \<longrightarrow>
         fst (probe_response flaky_client ''Q'' ''R'' (world0 fever_rash)) ! i =
           (probing_questions ! i, sentinel)"
    by blast
  have two: "(2::nat) < 8" by simp
  from imp two h have a: "fst (probe_response flaky_client ''Q'' ''R'' (world0 fever_rash)) ! 2 =
       (probing_questions ! 2, sentinel)" by blast
  from t have b: "length (fst (probe_response flaky_client ''Q'' ''R'' (world0 fever_rash))) = 8"
    by blast
  from h a b show ?thesis by blast
qed

text \<open>
  C4. When the completion call of \<^verbatim>\<open>generate_initial_response\<close> returns a completion
  whose first choice has the text \<open>T\<close>, the function returns \<open>T\<close> itself, for every
  question and options.
\<close>

theorem generate_initial_response_returns_text:
  assumes "cl (calls w) (generate_request (heap w p)) = Inr c"
    and "choices c = ch # rest"
    and "content (message ch) = T"
  shows "fst (generate_initial_response cl p w) = T"
proof -
  from assms have "try_content (cl (calls w) (generate_request (heap w p))) = Inr T"
    by (simp add: try_content_def first_choice_content_def)
  then show ?thesis
    by (simp add: generate_fst slot_text_Inr)
qed

theorem generate_initial_response_returns_text_witness:
  "canned_client (calls (world0 fever_rash)) (generate_request (heap (world0 fever_rash) 0)) =
     Inr (canned_completion ''B'')
   \<and> choices (canned_completion ''B'') = [\<lparr>message = \<lparr>role = ''assistant'', content = ''B''\<rparr>\<rparr>]
   \<and> content (message \<lparr>message = \<lparr>role = ''assistant'', content = ''B''\<rparr>\<rparr>) = ''B''
   \<and> fst (generate_initial_response canned_client 0 (world0 fever_rash)) = ''B''"
proof -
  have h1: "canned_client (calls (world0 fever_rash))
              (generate_request (heap (world0 fever_rash) 0)) = Inr (canned_completion ''B'')"
    by (simp add: canned_client_def)
  have h2: "choices (canned_completion ''B'') =
              \<lparr>message = \<lparr>role = ''assistant'', content = ''B''\<rparr>\<rparr> # []"
    by (simp add: canned_completion_def)
  have h3: "content (message \<lparr>message = \<lparr>role = ''assistant'', content = ''B''\<rparr>\<rparr>) = ''B''"
    by simp
  note t = generate_initial_response_returns_text
    [where cl = canned_client and w = "world0 fever_rash" and p = 0
       and c = "canned_completion ''B''", OF h1 h2 h3]
  from h1 h2 h3 t show ?thesis by blast
qed

text \<open>
  C5. When the call of probe \<open>i\<close> fails, the sentinel is stored under the key of probe
  \<open>i\<close>; every other probe \<open>j\<close> has under its key the slot text of its own call (the
  text returned, or the sentinel when that call failed too); and all 8 requests were
  issued, in the order of the list.
\<close>

theorem probe_failure_isolated:
  assumes "i < 8"
    and "try_content (cl (calls w @ map (probe_request q ir) (take i probing_questions))
                        (probe_request q ir (probing_questions ! i))) = Inl e"
  shows "fst (probe_response cl q ir w) ! i = (probing_questions ! i, sentinel)
       \<and> (\<forall>j<8. j \<noteq> i \<longrightarrow>
            fst (probe_response cl q ir w) ! j =
              (probing_questions ! j,
               slot_text (cl (calls w @ map (probe_request q ir) (take j probing_questions))
                            (probe_request q ir (probing_questions ! j)))))
       \<and> calls (snd (probe_response cl q ir w)) =
           calls w @ map (probe_request q ir) probing_questions"
proof -
  have nth: "fst (probe_response cl q ir w) ! j =
      (probing_questions ! j,
       slot_text (cl (calls w @ map (probe_request q ir) (take j probing_questions))
                    (probe_request q ir (probing_questions ! j))))" if "j < 8" for j
    using that by (simp add: probe_response_entries probe_entries_nth length_probing_questions)
  have a: "fst (probe_response cl q ir w) ! i = (probing_questions ! i, sentinel)"
    using nth [OF assms(1)] slot_text_Inl [OF assms(2)] by simp
  from a nth probe_response_calls [of cl q ir w] show ?thesis by blast
qed

theorem probe_failure_isolated_witness:
  "(2::nat) < 8
   \<and> try_content
       (flaky_client
          (calls (world0 fever_rash) @ map (probe_request ''Q'' ''R'') (take 2 probing_questions))
          (probe_request ''Q'' ''R'' (probing_questions ! 2))) = Inl (RemoteError ''Request timed out.'')
   \<and> fst (probe_response flaky_client ''Q'' ''R'' (world0 fever_rash)) ! 2 =
       (probing_questions ! 2, sentinel)
   \<and> fst (probe_response flaky_client ''Q'' ''R'' (world0 fever_rash)) ! 3 =
       (probing_questions ! 3, ''ok'')
   \<and> length (calls (snd (probe_response flaky_client ''Q'' ''R'' (world0 fever_rash)))) = 8"
proof -
  have two: "(2::nat) < 8" by simp
  have h: "try_content
     (flaky_client
        (calls (world0 fever_rash) @ map (probe_request ''Q'' ''R'') (take 2 probing_questions))
        (probe_request ''Q'' ''R'' (probing_questions ! 2))) = Inl (RemoteError ''Request timed out.'')"
    by (simp add: flaky_client_def try_content_def world0_def probing_questions_def)
  note t = probe_failure_isolated
    [where cl = flaky_client and w = "world0 fever_rash" and q = "''Q''" and ir = "''R''"
       and i = 2, OF two h]
  from t have a: "fst (probe_response flaky_client ''Q'' ''R'' (world0 fever_rash)) ! 2 =
       (probing_questions ! 2, sentinel)" by blast
  have three: "(3::nat) < 8 \<and> (3::nat) \<noteq> 2" by simp
  from t three have "fst (probe_response flaky_client ''Q'' ''R'' (world0 fever_rash)) ! 3 =
      (probing_questions ! 3,
       slot_text (flaky_client (calls (world0 fever_rash) @
                     map (probe_request ''Q'' ''R'') (take 3 probing_questions))
                    (probe_request ''Q'' ''R'' (probing_questions ! 3))))" by blast
  moreover have "slot_text (flaky_client (calls (world0 fever_rash) @
                     map (probe_request ''Q'' ''R'') (take 3 probing_questions))
                    (probe_request ''Q'' ''R'' (probing_questions ! 3))) = ''ok''"
    by (simp add: flaky_client_def slot_text_def try_content_def first_choice_content_def
        canned_completion_def world0_def probing_questions_def)
  ultimately have b: "fst (probe_response flaky_client ''Q'' ''R'' (world0 fever_rash)) ! 3 =
       (probing_questions ! 3, ''ok'')" by simp
  from t have "calls (snd (probe_response flaky_client ''Q'' ''R'' (world0 fever_rash))) =
      calls (world0 fever_rash) @ map (probe_request ''Q'' ''R'') probing_questions" by blast
  then have c: "length (calls (snd (probe_response flaky_client ''Q'' ''R'' (world0 fever_rash)))) = 8"
    by (simp add: world0_def length_probing_questions)
  from two h a b c show ?thesis by blast
qed

text \<open>
  C7. One run of the pipeline adds exactly 10 requests to the log of calls: the
  generate request, the 8 probe requests in the order of the list, and the assessment
  request, in this order, whatever the client returns.
\<close>

theorem process_issues_ten_calls:
  "(let q = question (heap w p);
        g = generate_initial_response cl p w;
        pr = probe_response cl q (fst g) (snd g)
    in calls (snd (process_question_with_agents cl p w)) =
         calls w @ [generate_request (heap w p)]
           @ map (probe_request q (fst g)) probing_questions
           @ [assessment_request q (fst g) (analyze_probing_results (fst pr))])
   \<and> length (calls (snd (process_question_with_agents cl p w))) = length (calls w) + 10"
  by (simp add: Let_def process_calls length_probing_questions)

section \<open>Outputs of a whole run\<close>

lemma process_fst:
  "fst (process_question_with_agents cl p w) =
     (let q = question (heap w p);
          h1 = calls w @ [generate_request (heap w p)];
          ir = slot_text (cl (calls w) (generate_request (heap w p)));
          pr = probe_entries cl q ir h1 probing_questions
      in \<lparr>Question = q,
          Initial_Response = ir,
          Probing_Questions_and_Answers = pr,
          Final_Assessment =
            slot_text (cl (h1 @ map (probe_request q ir) probing_questions)
                         (assessment_request q ir (analyze_probing_results pr)))\<rparr>)"
  by (simp add: process_unfold Let_def generate_fst generate_calls probe_response_entries
      probe_response_calls final_fst)

lemma probe_entries_all_fail:
  "\<forall>h rq. \<exists>e. cl h rq = Inl e \<Longrightarrow>
   probe_entries cl q ir h ps = map (\<lambda>probe. (probe, sentinel)) ps"
proof (induction ps arbitrary: h)
  case Nil
  then show ?case by simp
next
  case (Cons p ps)
  from Cons.prems obtain e where "cl h (probe_request q ir p) = Inl e" by blast
  then have "slot_text (cl h (probe_request q ir p)) = sentinel"
    by (simp add: slot_text_def try_content_def)
  with Cons.IH [OF Cons.prems] show ?case by simp
qed

text \<open>
  C2, as amended. The pipeline returns a value of \<^typ>\<open>pipeline_output\<close> on every input:
  each \<^verbatim>\<open>try\<close> body has its handler, so no exception leaves a stage. When every
  completion call raises, \<^verbatim>\<open>Initial Response\<close> and \<^verbatim>\<open>Final Assessment\<close> are the
  sentinel and \<^verbatim>\<open>Probing Questions and Answers\<close> maps each of the 8 probing questions,
  in order, to the sentinel. The field \<^verbatim>\<open>Question\<close> is not a sentinel: it is the
  question of the input.
\<close>

theorem all_calls_fail_sentinel_output:
  assumes "\<forall>h rq. \<exists>e. cl h rq = Inl e"
  shows "fst (process_question_with_agents cl p w) =
           \<lparr>Question = question (heap w p),
            Initial_Response = sentinel,
            Probing_Questions_and_Answers = map (\<lambda>probe. (probe, sentinel)) probing_questions,
            Final_Assessment = sentinel\<rparr>"
proof -
  have fail: "slot_text (cl h rq) = sentinel" for h rq
  proof -
    from assms obtain e where "cl h rq = Inl e" by blast
    then show ?thesis by (simp add: slot_text_def try_content_def)
  qed
  show ?thesis
    by (simp add: process_fst Let_def fail probe_entries_all_fail [OF assms])
qed

theorem all_calls_fail_sentinel_output_witness:
  "(\<forall>h rq. \<exists>e. failing_client h rq = Inl e)
   \<and> fst (process_question_with_agents failing_client 0 (world0 fever_rash)) =
       \<lparr>Question = ''Patient presents with fever and rash'',
        Initial_Response = sentinel,
        Probing_Questions_and_Answers = map (\<lambda>probe. (probe, sentinel)) probing_questions,
        Final_Assessment = sentinel\<rparr>"
proof -
  have h: "\<forall>h rq. \<exists>e. failing_client h rq = Inl e"
    by (simp add: failing_client_def)
  have q: "question (heap (world0 fever_rash) 0) = ''Patient presents with fever and rash''"
    by (simp add: world0_def fever_rash_def)
  from all_calls_fail_sentinel_output [OF h, of 0 "world0 fever_rash"] q h
  show ?thesis by simp
qed

text \<open>
  Not all fields read the sentinel when every call raises: the field \<^verbatim>\<open>Question\<close>
  of the output is the question that was asked.
\<close>

theorem all_fields_sentinel_counterexample:
  "Question (fst (process_question_with_agents failing_client 0 (world0 fever_rash))) \<noteq> sentinel"
  by (simp add: process_fst Let_def world0_def fever_rash_def sentinel_def)

text \<open>
  C6. With a client whose outcome depends on the request alone, two runs on the same
  \<^verbatim>\<open>question_data\<close> return equal outputs, whatever was called or printed before each
  of them; in particular a second run, started in the state the first run left,
  returns the output of the first.
\<close>

lemma probe_entries_const:
  "probe_entries (\<lambda>h. f) q ir h ps =
     map (\<lambda>probe. (probe, slot_text (f (probe_request q ir probe)))) ps"
  by (induction ps arbitrary: h) auto

lemma process_fst_const:
  "fst (process_question_with_agents (\<lambda>h. f) p w) =
     (let q = question (heap w p);
          ir = slot_text (f (generate_request (heap w p)));
          pr = map (\<lambda>probe. (probe, slot_text (f (probe_request q ir probe)))) probing_questions
      in \<lparr>Question = q,
          Initial_Response = ir,
          Probing_Questions_and_Answers = pr,
          Final_Assessment =
            slot_text (f (assessment_request q ir (analyze_probing_results pr)))\<rparr>)"
  by (simp add: process_fst Let_def probe_entries_const)

theorem pipeline_deterministic:
  assumes "\<forall>h h' rq. cl h rq = cl h' rq"
    and "heap w p = heap w' p"
  shows "fst (process_question_with_agents cl p w) = fst (process_question_with_agents cl p w')
       \<and> fst (process_question_with_agents cl p (snd (process_question_with_agents cl p w))) =
           fst (process_question_with_agents cl p w)"
proof -
  have cl: "cl = (\<lambda>h. cl [])"
  proof (rule ext)
    fix h
    from assms(1) have "cl h rq = cl [] rq" for rq
      by blast
    then show "cl h = cl []"
      by (rule ext)
  qed
  have same: "fst (process_question_with_agents cl p u) = fst (process_question_with_agents cl p v)"
    if "heap u p = heap v p" for u v
    by (subst cl, subst (2) cl) (simp only: process_fst_const that)
  have "heap (snd (process_question_with_agents cl p w)) p = heap w p"
    by (simp add: process_heap)
  from same [OF assms(2)] same [OF this] show ?thesis by blast
qed

theorem pipeline_deterministic_witness:
  "(\<forall>h h' rq. canned_client h rq = canned_client h' rq)
   \<and> heap (world0 fever_rash) 0 = heap ((world0 fever_rash)\<lparr>calls := [generate_request no_options]\<rparr>) 0
   \<and> fst (process_question_with_agents canned_client 0 (world0 fever_rash)) =
       fst (process_question_with_agents canned_client 0
              ((world0 fever_rash)\<lparr>calls := [generate_request no_options]\<rparr>))"
proof -
  have h1: "\<forall>h h' rq. canned_client h rq = canned_client h' rq"
    by (simp add: canned_client_def)
  have h2: "heap (world0 fever_rash) 0 =
            heap ((world0 fever_rash)\<lparr>calls := [generate_request no_options]\<rparr>) 0"
    by simp
  note t = pipeline_deterministic [where cl = canned_client and p = 0
      and w = "world0 fever_rash"
      and w' = "(world0 fever_rash)\<lparr>calls := [generate_request no_options]\<rparr>", OF h1 h2]
  from h1 h2 t show ?thesis by blast
qed


text \<open>
  C9. A run of the pipeline leaves the store as it found it, whatever the client
  does: the question and the options of \<^verbatim>\<open>question_data\<close> are the same after the
  run as before.
\<close>

theorem question_input_unchanged:
  "heap (snd (process_question_with_agents cl p w)) = heap w
   \<and> question (heap (snd (process_question_with_agents cl p w)) p) = question (heap w p)
   \<and> options (heap (snd (process_question_with_agents cl p w)) p) = options (heap w p)"
  by (simp add: process_heap)

text \<open>
  C8. \<^verbatim>\<open>extract_options\<close> returns the lines \<^verbatim>\<open>key: value\<close> of the entries, in the
  order of the dict, with a newline before every line but the first, and the empty
  string for the empty dict. With no options the generate prompt has nothing between
  \<^verbatim>\<open>Options:\<close> and the instructions, and the run still returns an output with the 8
  probing questions as the keys of its probing results.
\<close>

lemma join_cons: "join sep (x # xs) = x @ concat (map (\<lambda>y. sep @ y) xs)"
  by (induction xs arbitrary: x) auto

theorem extract_options_lines:
  "extract_options [] = []
   \<and> extract_options ((k, v) # rest) =
       k @ '': '' @ v @ concat (map (\<lambda>(k', v'). ''\<newline>'' @ k' @ '': '' @ v') rest)
   \<and> (options (heap w p) = [] \<longrightarrow>
        generate_request (heap w p) =
          completion_request
            (''Question:\<newline>'' @ question (heap w p) @ ''\<newline>\<newline>Options:\<newline>'' @ ''\<newline>\<newline>'' @
             generate_instructions) 500
        \<and> map fst (Probing_Questions_and_Answers (fst (process_question_with_agents cl p w))) =
            probing_questions
        \<and> length (Probing_Questions_and_Answers (fst (process_question_with_agents cl p w))) = 8)"
proof -
  have a: "extract_options [] = []"
    by (simp add: extract_options_def)
  have m: "map (\<lambda>y. ''\<newline>'' @ y) (map (\<lambda>(key, val). key @ '': '' @ val) rest) =
           map (\<lambda>(k', v'). ''\<newline>'' @ k' @ '': '' @ v') rest"
    by (induction rest) auto
  have b: "extract_options ((k, v) # rest) =
       k @ '': '' @ v @ concat (map (\<lambda>(k', v'). ''\<newline>'' @ k' @ '': '' @ v') rest)"
    unfolding extract_options_def list.map join_cons m by simp
  have c: "generate_request (heap w p) =
          completion_request
            (''Question:\<newline>'' @ question (heap w p) @ ''\<newline>\<newline>Options:\<newline>'' @ ''\<newline>\<newline>'' @
             generate_instructions) 500" if "options (heap w p) = []"
    using that by (simp add: generate_request_def generate_prompt_def extract_options_def)
  have len: "length (probe_entries cl' q' ir' h ps) = length ps" for cl' q' ir' h ps
    using probe_entries_keys [of cl' q' ir' h ps] by (metis length_map)
  have d: "map fst (Probing_Questions_and_Answers (fst (process_question_with_agents cl p w))) =
       probing_questions"
    by (simp add: process_probing probe_response_entries probe_entries_keys)
  have e: "length (Probing_Questions_and_Answers (fst (process_question_with_agents cl p w))) = 8"
    by (simp add: process_probing probe_response_entries len length_probing_questions)
  from a b c d e show ?thesis by blast
qed

theorem extract_options_lines_witness:
  "options (heap (world0 no_options) 0) = []
   \<and> extract_options (options fever_rash) =
       ''A: Measles\<newline>B: Scarlet fever\<newline>C: Rubella\<newline>D: Varicella\<newline>E: Roseola''
   \<and> generate_request (heap (world0 no_options) 0) =
       completion_request
         (''Question:\<newline>Patient presents with fever and rash\<newline>\<newline>Options:\<newline>\<newline>\<newline>'' @
          generate_instructions) 500
   \<and> length (Probing_Questions_and_Answers
         (fst (process_question_with_agents canned_client 0 (world0 no_options)))) = 8"
proof -
  have h: "options (heap (world0 no_options) 0) = []"
    by (simp add: world0_def no_options_def)
  note t = extract_options_lines [where w = "world0 no_options" and p = 0
      and cl = canned_client and k = "''A''" and v = "''Measles''"
      and rest = "[(''B'', ''Scarlet fever''), (''C'', ''Rubella''), (''D'', ''Varicella''),
                   (''E'', ''Roseola'')]"]
  from t have a: "extract_options (options fever_rash) =
       ''A: Measles\<newline>B: Scarlet fever\<newline>C: Rubella\<newline>D: Varicella\<newline>E: Roseola''"
    by (simp add: fever_rash_def)
  from t h have b: "generate_request (heap (world0 no_options) 0) =
       completion_request
         (''Question:\<newline>'' @ question (heap (world0 no_options) 0) @ ''\<newline>\<newline>Options:\<newline>'' @
          ''\<newline>\<newline>'' @ generate_instructions) 500"
    by blast
  have q: "question (heap (world0 no_options) 0) = ''Patient presents with fever and rash''"
    by (simp add: world0_def no_options_def)
  from t h have c: "length (Probing_Questions_and_Answers
         (fst (process_question_with_agents canned_client 0 (world0 no_options)))) = 8"
    by blast
  from b q have b': "generate_request (heap (world0 no_options) 0) =
       completion_request
         (''Question:\<newline>Patient presents with fever and rash\<newline>\<newline>Options:\<newline>\<newline>\<newline>'' @
          generate_instructions) 500"
    by simp
  from h a b' c show ?thesis by blast
qed

subsection \<open>The rendering of the analysis in the assessment prompt\<close>

lemma hexdigit_printable: "isprintable (hexdigit n)"
proof -
  have "n mod 16 < length ''0123456789abcdef''" by simp
  then have "hexdigit n \<in> set ''0123456789abcdef''"
    unfolding hexdigit_def by (rule nth_mem)
  then show ?thesis by (auto simp: isprintable_def)
qed

lemma repr_char_printable:
  "isprintable quote \<Longrightarrow> list_all isprintable (repr_char quote ch)"
  using hexdigit_printable [of "of_char ch div 16"] hexdigit_printable [of "of_char ch"]
  by (auto simp: repr_char_def backslash_def isprintable_def Let_def)

lemma py_repr_printable: "list_all isprintable (py_repr s)"
proof -
  have body: "list_all isprintable (concat (map (repr_char quote) s))" if "isprintable quote" for quote
    using that repr_char_printable [OF that] by (induction s) auto
  have s: "isprintable squote" and d: "isprintable dquote"
    by (simp_all add: squote_def dquote_def isprintable_def)
  from body [OF s] body [OF d] s d show ?thesis
    by (auto simp: py_repr_def Let_def)
qed

lemma join_list_all:
  "list_all P sep \<Longrightarrow> list_all (list_all P) xs \<Longrightarrow> list_all P (join sep xs)"
  by (induction sep xs rule: join.induct) auto

lemma dict_str_printable: "list_all isprintable (dict_str d)"
proof -
  have colon: "list_all isprintable '': ''" by (simp add: isprintable_def)
  have "list_all (list_all isprintable) (map (\<lambda>(k, v). py_repr k @ '': '' @ py_repr v) d)"
    using colon by (induction d) (auto simp: py_repr_printable)
  moreover have "list_all isprintable '', ''" by (simp add: isprintable_def)
  ultimately have "list_all isprintable
      (join '', '' (map (\<lambda>(k, v). py_repr k @ '': '' @ py_repr v) d))"
    by (rule join_list_all [rotated])
  moreover have "isprintable (CHR ''{'')" "isprintable (CHR ''}'')"
    by (simp_all add: isprintable_def)
  ultimately show ?thesis by (simp add: dict_str_def)
qed

lemma dict_str_no_newline: "newline \<notin> set (dict_str d)"
proof
  assume "newline \<in> set (dict_str d)"
  with dict_str_printable [of d] have "isprintable newline"
    by (simp add: list_all_iff)
  then show False by (simp add: isprintable_def newline_def)
qed

lemma py_repr_plain:
  "list_all (\<lambda>c. isprintable c \<and> c \<noteq> squote \<and> c \<noteq> backslash) s \<Longrightarrow>
   py_repr s = squote # s @ [squote]"
proof -
  assume plain: "list_all (\<lambda>c. isprintable c \<and> c \<noteq> squote \<and> c \<noteq> backslash) s"
  then have q: "squote \<notin> set s" by (auto simp: list_all_iff)
  have c: "repr_char squote c = [c]" if "isprintable c" "c \<noteq> squote" "c \<noteq> backslash" for c
    using that by (auto simp: repr_char_def isprintable_def Let_def newline_def)
  from plain have "concat (map (repr_char squote) s) = s"
    by (induction s) (auto simp: c)
  with q show ?thesis by (simp add: py_repr_def)
qed

lemma length_py_repr: "length s + 2 \<le> length (py_repr s)"
proof -
  have one: "1 \<le> length (repr_char quote c)" for quote c
    by (simp add: repr_char_def)
  have "length s \<le> length (concat (map (repr_char quote) s))" for quote
  proof (induction s)
    case Nil
    then show ?case by simp
  next
    case (Cons c s)
    with one [of quote c] show ?case by simp
  qed
  then show ?thesis by (simp add: py_repr_def Let_def)
qed

lemma length_join_mono:
  "length sep \<le> length sep' \<Longrightarrow> list_all2 (\<lambda>x y. length x \<le> length y) xs ys \<Longrightarrow>
   length (join sep xs) \<le> length (join sep' ys)"
proof (induction sep xs arbitrary: ys rule: join.induct)
  case (1 sep)
  then show ?case by simp
next
  case (2 sep x)
  then show ?case by (auto simp: list_all2_Cons1)
next
  case (3 sep x y ys')
  from "3.prems"(2) obtain a b bs where ys: "ys = a # b # bs"
    and xa: "length x \<le> length a"
    and rest: "list_all2 (\<lambda>x y. length x \<le> length y) (y # ys') (b # bs)"
    by (auto simp: list_all2_Cons1)
  from "3.IH" [OF "3.prems"(1) rest] xa "3.prems"(1) show ?case
    by (simp add: ys)
qed

lemma dict_str_longer: "length (extract_options d) < length (dict_str d)"
proof -
  have "list_all2 (\<lambda>x y. length x \<le> length y)
          (map (\<lambda>(key, val). key @ '': '' @ val) d)
          (map (\<lambda>(k, v). py_repr k @ '': '' @ py_repr v) d)"
  proof (induction d)
    case Nil
    then show ?case by simp
  next
    case (Cons kv d)
    obtain k v where kv: "kv = (k, v)" by (cases kv)
    from length_py_repr [of k] length_py_repr [of v] Cons show ?case
      by (simp add: kv)
  qed
  moreover have "length ''\<newline>'' \<le> length '', ''" by simp
  ultimately have "length (extract_options d) \<le>
      length (join '', '' (map (\<lambda>(k, v). py_repr k @ '': '' @ py_repr v) d))"
    unfolding extract_options_def by (rule length_join_mono [rotated])
  then show ?thesis by (simp add: dict_str_def)
qed

lemma dict_str_nbsp:
  "dict_str [(''k'', [CHR ''5'', CHR 0xA0, CHR ''m'', CHR ''g''])] =
     ''{'' @ [squote] @ ''k'' @ [squote] @ '': '' @ [squote] @ ''5'' @ [backslash] @ ''xa0mg''
       @ [squote] @ ''}''"
  by (simp add: dict_str_def py_repr_def repr_char_def squote_def dquote_def backslash_def
      newline_def Let_def isprintable_def hexdigit_def)

lemma py_repr_escapes:
  "py_repr [backslash, CHR 0x09, CHR 0x0D, CHR 0x01, CHR 0x7F, CHR 0x85, CHR 0xAD, CHR 0xE9] =
     [squote] @ [backslash, backslash] @ [backslash] @ ''t'' @ [backslash] @ ''r''
       @ [backslash] @ ''x01'' @ [backslash] @ ''x7f'' @ [backslash] @ ''x85''
       @ [backslash] @ ''xad'' @ [CHR 0xE9] @ [squote]"
  by (simp add: py_repr_def repr_char_def squote_def dquote_def backslash_def
      newline_def Let_def isprintable_def hexdigit_def)

lemma py_repr_quotes:
  "py_repr [squote, dquote] = [squote, backslash, squote, dquote, squote]
   \<and> py_repr [dquote] = [squote, dquote, squote]
   \<and> py_repr [squote] = [dquote, squote, dquote]"
  by (simp add: py_repr_def repr_char_def squote_def dquote_def backslash_def
      newline_def Let_def isprintable_def hexdigit_def)


lemma dict_str_mixed:
  "dict_str [(''Q1'', ''Analysis of: yes''),
             (''Q2'', ''Analysis of: it'' @ [squote] @ ''s\<newline>ok'')] =
     ''{'' @ [squote] @ ''Q1'' @ [squote] @ '': '' @ [squote] @ ''Analysis of: yes'' @ [squote]
       @ '', '' @ [squote] @ ''Q2'' @ [squote] @ '': '' @ [dquote] @ ''Analysis of: it''
       @ [squote] @ ''s'' @ [backslash] @ ''nok'' @ [dquote] @ ''}''"
  by (simp add: dict_str_def py_repr_def repr_char_def squote_def dquote_def backslash_def
      newline_def Let_def isprintable_def)

text \<open>
  C10. The request of \<^verbatim>\<open>generate_final_assessment\<close> has as its prompt the fixed
  template around the question and the initial response, followed by \<^verbatim>\<open>str(analysis)\<close>:
  an opening brace, the entries as \<^verbatim>\<open>repr(key): repr(value)\<close> separated by a comma and
  a space, and a closing brace. The rendering is that of the language: all its
  characters are printable, so it is a single line without a raw newline; it is never
  the text that the per-entry formatting of \<^verbatim>\<open>extract_options\<close> gives for the same
  dict; \<^verbatim>\<open>repr\<close> of a string of printable characters without \<^verbatim>\<open>'\<close> and backslash is
  the string between two \<^verbatim>\<open>'\<close>; and at the inputs below it has the value that
  \<^verbatim>\<open>str\<close> and \<^verbatim>\<open>repr\<close> return, with the no-break space as \<^verbatim>\<open>\xa0\<close> (16 characters
  for \<^verbatim>\<open>{'k': '5\xa0mg'}\<close>), the quote chosen by the quotes present, and each kind of
  escape.
\<close>

theorem assessment_prompt_embeds_dict_str:
  "calls (snd (generate_final_assessment cl q ir analysis w)) =
     calls w @
       [completion_request
          (''Question: '' @ q @ ''\<newline>\<newline>Initial response: '' @ ir @
           ''\<newline>\<newline>Based on the following analysis, provide a final assessment and select only one best and the correct option (A, B, C, D, or E):\<newline>'' @
           ''{'' @ join '', '' (map (\<lambda>(k, v). py_repr k @ '': '' @ py_repr v) analysis) @ ''}'')
          500]
   \<and> list_all isprintable (dict_str analysis)
   \<and> newline \<notin> set (dict_str analysis)
   \<and> dict_str analysis \<noteq> extract_options analysis
   \<and> (list_all (\<lambda>c. isprintable c \<and> c \<noteq> squote \<and> c \<noteq> backslash) s \<longrightarrow>
        py_repr s = squote # s @ [squote])
   \<and> dict_str [(''k'', [CHR ''5'', CHR 0xA0, CHR ''m'', CHR ''g''])] =
       ''{'' @ [squote] @ ''k'' @ [squote] @ '': '' @ [squote] @ ''5'' @ [backslash] @ ''xa0mg''
         @ [squote] @ ''}''
   \<and> length (dict_str [(''k'', [CHR ''5'', CHR 0xA0, CHR ''m'', CHR ''g''])]) = 16
   \<and> dict_str [(''Q1'', ''Analysis of: yes''),
               (''Q2'', ''Analysis of: it'' @ [squote] @ ''s\<newline>ok'')] =
       ''{'' @ [squote] @ ''Q1'' @ [squote] @ '': '' @ [squote] @ ''Analysis of: yes'' @ [squote]
         @ '', '' @ [squote] @ ''Q2'' @ [squote] @ '': '' @ [dquote] @ ''Analysis of: it''
         @ [squote] @ ''s'' @ [backslash] @ ''nok'' @ [dquote] @ ''}''
   \<and> py_repr [backslash, CHR 0x09, CHR 0x0D, CHR 0x01, CHR 0x7F, CHR 0x85, CHR 0xAD, CHR 0xE9] =
       [squote] @ [backslash, backslash] @ [backslash] @ ''t'' @ [backslash] @ ''r''
         @ [backslash] @ ''x01'' @ [backslash] @ ''x7f'' @ [backslash] @ ''x85''
         @ [backslash] @ ''xad'' @ [CHR 0xE9] @ [squote]
   \<and> py_repr [squote, dquote] = [squote, backslash, squote, dquote, squote]
   \<and> py_repr [dquote] = [squote, dquote, squote]
   \<and> py_repr [squote] = [dquote, squote, dquote]"
proof -
  have prompt: "calls (snd (generate_final_assessment cl q ir analysis w)) =
     calls w @
       [completion_request
          (''Question: '' @ q @ ''\<newline>\<newline>Initial response: '' @ ir @
           ''\<newline>\<newline>Based on the following analysis, provide a final assessment and select only one best and the correct option (A, B, C, D, or E):\<newline>'' @
           ''{'' @ join '', '' (map (\<lambda>(k, v). py_repr k @ '': '' @ py_repr v) analysis) @ ''}'')
          500]"
    by (simp add: final_calls assessment_request_def assessment_prompt_def dict_str_def)
  have differs: "dict_str analysis \<noteq> extract_options analysis"
    using dict_str_longer [of analysis] by auto
  have plain: "list_all (\<lambda>c. isprintable c \<and> c \<noteq> squote \<and> c \<noteq> backslash) s \<longrightarrow>
        py_repr s = squote # s @ [squote]"
    using py_repr_plain [of s] by blast
  have len: "length (dict_str [(''k'', [CHR ''5'', CHR 0xA0, CHR ''m'', CHR ''g''])]) = 16"
    unfolding dict_str_nbsp by simp
  from prompt dict_str_printable [of analysis] dict_str_no_newline [of analysis] differs plain
    dict_str_nbsp len dict_str_mixed py_repr_escapes py_repr_quotes
  show ?thesis by blast
qed

theorem assessment_prompt_embeds_dict_str_witness:
  "list_all (\<lambda>c. isprintable c \<and> c \<noteq> squote \<and> c \<noteq> backslash) ''Analysis of: yes''
   \<and> py_repr ''Analysis of: yes'' = squote # ''Analysis of: yes'' @ [squote]
   \<and> dict_str [(''Q1'', ''Analysis of: yes'')] \<noteq> extract_options [(''Q1'', ''Analysis of: yes'')]"
proof -
  have h: "list_all (\<lambda>c. isprintable c \<and> c \<noteq> squote \<and> c \<noteq> backslash) ''Analysis of: yes''"
    by (simp add: isprintable_def squote_def backslash_def)
  note t = assessment_prompt_embeds_dict_str
    [where s = "''Analysis of: yes''" and analysis = "[(''Q1'', ''Analysis of: yes'')]"]
  from t h have a: "py_repr ''Analysis of: yes'' = squote # ''Analysis of: yes'' @ [squote]"
    by blast
  from t have b: "dict_str [(''Q1'', ''Analysis of: yes'')] \<noteq>
      extract_options [(''Q1'', ''Analysis of: yes'')]"
    by blast
  from h a b show ?thesis by blast
qed

text \<open>
  The scenario of the specification: every call returns the same canned text.
\<close>

lemma canned_scenario:
  "fst (process_question_with_agents canned_client 0 (world0 fever_rash)) =
     \<lparr>Question = ''Patient presents with fever and rash'',
      Initial_Response = ''B'',
      Probing_Questions_and_Answers = map (\<lambda>probe. (probe, ''B'')) probing_questions,
      Final_Assessment = ''B''\<rparr>"
proof -
  have c: "canned_client = (\<lambda>h rq. Inr (canned_completion ''B''))"
    by (intro ext) (simp add: canned_client_def)
  show ?thesis
    unfolding c process_fst_const
    by (simp add: slot_text_def try_content_def first_choice_content_def
        canned_completion_def world0_def fever_rash_def)
qed

text \<open>
  The outcomes of the ten calls are independent: with a scripted service, each slot
  of the output is the slot text of the outcome at its own position in the script.
\<close>

lemma probe_entries_scripted:
  "length h + length ps \<le> length os \<Longrightarrow>
   probe_entries (scripted_client os) q ir h ps =
     zip ps (map slot_text (take (length ps) (drop (length h) os)))"
proof (induction ps arbitrary: h)
  case Nil
  then show ?case by simp
next
  case (Cons p ps)
  from Cons.prems have lt: "length h < length os" by simp
  then have d: "drop (length h) os = os ! length h # drop (Suc (length h)) os"
    by (simp add: Cons_nth_drop_Suc)
  from Cons.prems have "length (h @ [probe_request q ir p]) + length ps \<le> length os" by simp
  from Cons.IH [OF this] lt show ?case
    by (simp add: d scripted_client_def)
qed

lemma scripted_run:
  assumes "length os = 10" and "calls w = []"
  shows "fst (process_question_with_agents (scripted_client os) p w) =
           \<lparr>Question = question (heap w p),
            Initial_Response = slot_text (os ! 0),
            Probing_Questions_and_Answers =
              zip probing_questions (map slot_text (take 8 (drop 1 os))),
            Final_Assessment = slot_text (os ! 9)\<rparr>"
proof -
  have e: "probe_entries (scripted_client os) q ir [rq] probing_questions =
      zip probing_questions (map slot_text (take 8 (drop 1 os)))" for q ir rq
    using probe_entries_scripted [of "[rq]" probing_questions os q ir] assms(1)
    by (simp add: length_probing_questions)
  show ?thesis
    by (simp add: process_fst Let_def assms e scripted_client_def length_probing_questions)
qed

end
